theory Spec2Isabelle
  imports Complex_Main
begin

section \<open>Tilt Runner: the ball and the physics engine\<close>

text \<open>
  The model follows the two classes of the simulation core: \<^verbatim>\<open>Ball\<close> (position, velocity,
  boundary and obstacle collisions) and \<^verbatim>\<open>PhysicsEngine\<close> (the per-frame loop).

  Numbers. A JavaScript number is an IEEE-754 double. The model takes every number as a
  \<^typ>\<open>real\<close>: a finite value, with exact \<open>+\<close>, \<open>*\<close>, \<open>/\<close> and \<open>sqrt\<close>. Comparisons,
  assignments and the order of the statements are those of the code. What the model does not
  contain is the rounding of each operation, overflow to \<open>Infinity\<close>, and \<open>NaN\<close>. So the
  theorems below are of two kinds only: those decided by comparisons, assignments and the
  order of statements, which the rounding of an operation cannot change, and those about
  values that the doubles reproduce within the approximation the statement allows. What
  turns on the last digit of a result is not stated here: that a clamped speed does not
  exceed \<open>maxSpeed\<close> (the clamp divides by the speed and multiplies by \<open>maxSpeed\<close>, which
  in doubles can end one unit in the last place above it), and the answer of
  \<^verbatim>\<open>checkGoalCollision\<close> when the distance is at the sum of the radii.

  Effects. A method that assigns to \<^verbatim>\<open>this\<close> is a function from the object before the call to
  the object after it. A method that returns a value returns the pair of that value and the
  object after the call. The DOM is not part of the model: of \<^verbatim>\<open>onCollision\<close> (a shake class and
  a vibration) the model keeps the number of calls, in the field \<open>collisionEffects\<close>.
\<close>

subsection \<open>Data\<close>

text \<open>An obstacle as \<^verbatim>\<open>PhysicsEngine.updateObstacles\<close> builds it (without its DOM element).\<close>

record Obstacle =
  x :: real
  y :: real
  width :: real
  height :: real
  originalX :: real
  originalY :: real
  moveSpeed :: real
  moveDirection :: real
  moveRadius :: real

text \<open>The goal as \<^verbatim>\<open>PhysicsEngine.updateGoal\<close> builds it: a circle.\<close>

record Goal =
  x :: real
  y :: real
  radius :: real

text \<open>\<^verbatim>\<open>this.bounds\<close> of the ball.\<close>

record Bounds =
  left :: real
  right :: real
  top_edge :: real
  bottom :: real

text \<open>
  The fields of a \<^verbatim>\<open>Ball\<close>, in the order of the constructor. \<open>friction\<close>, \<open>bounce\<close>,
  \<open>maxSpeed\<close> and \<open>acceleration\<close> are fields too: the constructor sets them to
  \<open>0.95\<close>, \<open>0.7\<close>, \<open>8\<close> and \<open>0.3\<close>.
\<close>

record Ball =
  x :: real
  y :: real
  startX :: real
  startY :: real
  radius :: real
  vx :: real
  vy :: real
  friction :: real
  bounce :: real
  maxSpeed :: real
  acceleration :: real
  bounds :: Bounds
  isColliding :: bool
  collisionEffects :: nat

subsection \<open>Ball\<close>

text \<open>
  The constructor. \<^verbatim>\<open>updateBounds\<close> reads the size of the game container from the DOM; the
  model takes the container's width and height as arguments.
\<close>

definition updateBounds :: "real \<Rightarrow> real \<Rightarrow> Ball \<Rightarrow> Ball" where
  "updateBounds containerWidth containerHeight b =
     b\<lparr>bounds := \<lparr>left = Ball.radius b,
                    right = containerWidth - Ball.radius b,
                    top_edge = Ball.radius b,
                    bottom = containerHeight - Ball.radius b\<rparr>\<rparr>"

text \<open>\<^verbatim>\<open>updatePosition\<close> writes the position into the style of the DOM element, nothing else.\<close>

definition updatePosition :: "Ball \<Rightarrow> Ball" where
  "updatePosition b = b"

definition new_Ball :: "real \<Rightarrow> real \<Rightarrow> real \<Rightarrow> real \<Rightarrow> real \<Rightarrow> Ball" where
  "new_Ball containerWidth containerHeight x0 y0 r =
     updatePosition (updateBounds containerWidth containerHeight
       \<lparr>Ball.x = x0, Ball.y = y0, startX = x0, startY = y0,
        Ball.radius = r, vx = 0, vy = 0,
        friction = 95 / 100, bounce = 7 / 10, maxSpeed = 8, acceleration = 3 / 10,
        bounds = \<lparr>left = 0, right = 0, top_edge = 0, bottom = 0\<rparr>,
        isColliding = False, collisionEffects = 0\<rparr>)"

definition applyForce :: "real \<Rightarrow> real \<Rightarrow> Ball \<Rightarrow> Ball" where
  "applyForce forceX forceY b =
     (let b = b\<lparr>vx := vx b + forceX * acceleration b\<rparr>;
          b = b\<lparr>vy := vy b + forceY * acceleration b\<rparr>;
          speed = sqrt (vx b * vx b + vy b * vy b)
      in if speed > maxSpeed b
         then (let b = b\<lparr>vx := (vx b / speed) * maxSpeed b\<rparr>;
                   b = b\<lparr>vy := (vy b / speed) * maxSpeed b\<rparr>
               in b)
         else b)"

definition onCollision :: "Ball \<Rightarrow> Ball" where
  "onCollision b = b\<lparr>collisionEffects := Suc (collisionEffects b)\<rparr>"

text \<open>
  \<^verbatim>\<open>checkBoundaryCollisions\<close>: four tests in the order left, right, top, bottom, each on the
  position the tests before it left; the local \<^verbatim>\<open>collided\<close> is threaded with the ball.
  \<open>boundaryTests\<close> is the part up to the last test, \<open>checkBoundaryCollisions\<close> the method.
\<close>

definition boundaryTests :: "Ball \<Rightarrow> Ball \<times> bool" where
  "boundaryTests b =
     (let collided = False;
          (b, collided) =
            (if Ball.x b < left (bounds b)
             then (b\<lparr>Ball.x := left (bounds b), vx := - vx b * bounce b\<rparr>, True)
             else (b, collided));
          (b, collided) =
            (if Ball.x b > right (bounds b)
             then (b\<lparr>Ball.x := right (bounds b), vx := - vx b * bounce b\<rparr>, True)
             else (b, collided));
          (b, collided) =
            (if Ball.y b < top_edge (bounds b)
             then (b\<lparr>Ball.y := top_edge (bounds b), vy := - vy b * bounce b\<rparr>, True)
             else (b, collided));
          (b, collided) =
            (if Ball.y b > bottom (bounds b)
             then (b\<lparr>Ball.y := bottom (bounds b), vy := - vy b * bounce b\<rparr>, True)
             else (b, collided))
      in (b, collided))"

definition checkBoundaryCollisions :: "Ball \<Rightarrow> Ball" where
  "checkBoundaryCollisions b =
     (let (b, collided) = boundaryTests b;
          b = (if collided \<and> \<not> isColliding b then onCollision b else b)
      in b\<lparr>isColliding := collided\<rparr>)"

definition update :: "Ball \<Rightarrow> Ball" where
  "update b =
     (let b = b\<lparr>vx := vx b * friction b\<rparr>;
          b = b\<lparr>vy := vy b * friction b\<rparr>;
          b = b\<lparr>Ball.x := Ball.x b + vx b\<rparr>;
          b = b\<lparr>Ball.y := Ball.y b + vy b\<rparr>;
          b = checkBoundaryCollisions b;
          b = updatePosition b;
          b = (if \<bar>vx b\<bar> < 1 / 10 then b\<lparr>vx := 0\<rparr> else b);
          b = (if \<bar>vy b\<bar> < 1 / 10 then b\<lparr>vy := 0\<rparr> else b)
      in b)"

text \<open>The two queries: the value returned, and the ball after the call.\<close>

definition checkObstacleCollision :: "Obstacle \<Rightarrow> Ball \<Rightarrow> bool \<times> Ball" where
  "checkObstacleCollision obstacle b =
     (let dx = Ball.x b - max (Obstacle.x obstacle)
                            (min (Ball.x b) (Obstacle.x obstacle + width obstacle));
          dy = Ball.y b - max (Obstacle.y obstacle)
                            (min (Ball.y b) (Obstacle.y obstacle + height obstacle))
      in ((dx * dx + dy * dy) < (Ball.radius b * Ball.radius b), b))"

definition checkGoalCollision :: "Goal \<Rightarrow> Ball \<Rightarrow> bool \<times> Ball" where
  "checkGoalCollision goal b =
     (let dx = Ball.x b - Goal.x goal;
          dy = Ball.y b - Goal.y goal;
          distance = sqrt (dx * dx + dy * dy)
      in (distance < (Ball.radius b + Goal.radius goal), b))"

definition handleObstacleCollision :: "Obstacle \<Rightarrow> Ball \<Rightarrow> Ball" where
  "handleObstacleCollision obstacle b =
     (let centerX = Obstacle.x obstacle + width obstacle / 2;
          centerY = Obstacle.y obstacle + height obstacle / 2;
          dx = Ball.x b - centerX;
          dy = Ball.y b - centerY;
          distance = sqrt (dx * dx + dy * dy);
          b = (if distance > 0
               then (let normalX = dx / distance;
                         normalY = dy / distance;
                         b = b\<lparr>vx := normalX * maxSpeed b * (8 / 10)\<rparr>;
                         b = b\<lparr>vy := normalY * maxSpeed b * (8 / 10)\<rparr>;
                         b = b\<lparr>Ball.x := centerX + normalX *
                                (Ball.radius b + max (width obstacle) (height obstacle) / 2 + 5)\<rparr>;
                         b = b\<lparr>Ball.y := centerY + normalY *
                                (Ball.radius b + max (width obstacle) (height obstacle) / 2 + 5)\<rparr>
                     in b)
               else b)
      in onCollision b)"

definition reset :: "Ball \<Rightarrow> Ball" where
  "reset b =
     updatePosition
       (b\<lparr>Ball.x := startX b, Ball.y := startY b, vx := 0, vy := 0, isColliding := False\<rparr>)"

subsection \<open>PhysicsEngine\<close>

text \<open>
  The custom events the engine gives to \<^verbatim>\<open>document.dispatchEvent\<close>. Dispatch is synchronous:
  the listeners run inside the call, before the statement after it. The listeners are code
  outside the engine, so the engine's methods take them as an argument: what the listeners of
  an event do to the engine.
\<close>

datatype Event = ObstacleHit Obstacle | GoalReached

text \<open>
  The fields of a \<^verbatim>\<open>PhysicsEngine\<close> (\<open>gravity_x\<close> is \<^verbatim>\<open>this.gravity.x\<close>), and two fields for its
  effects on the browser: \<open>dispatched\<close>, the events dispatched so far, oldest first, and
  \<open>requestedFrames\<close>, the number of callbacks given to \<^verbatim>\<open>requestAnimationFrame\<close> that have
  not run yet.
\<close>

record PhysicsEngine =
  gravity_x :: real
  gravity_y :: real
  obstacles :: "Obstacle list"
  goal :: "Goal option"
  ball :: "Ball option"
  isRunning :: bool
  lastTime :: real
  deltaTime :: real
  dispatched :: "Event list"
  requestedFrames :: nat

type_synonym Listeners = "Event \<Rightarrow> PhysicsEngine \<Rightarrow> PhysicsEngine"

definition dispatchEvent :: "Listeners \<Rightarrow> Event \<Rightarrow> PhysicsEngine \<Rightarrow> PhysicsEngine" where
  "dispatchEvent listeners ev e = listeners ev (e\<lparr>dispatched := dispatched e @ [ev]\<rparr>)"

definition stop :: "PhysicsEngine \<Rightarrow> PhysicsEngine" where
  "stop e = e\<lparr>isRunning := False\<rparr>"

text \<open>
  \<^verbatim>\<open>updateMovingObstacles\<close>; its argument is the value of \<^verbatim>\<open>performance.now()\<close> it reads.
\<close>

definition updateMovingObstacles :: "real \<Rightarrow> PhysicsEngine \<Rightarrow> PhysicsEngine" where
  "updateMovingObstacles now e =
     (let time = now * (1 / 1000)
      in e\<lparr>obstacles := map (\<lambda>obstacle.
             (let offsetX = sin (time * moveSpeed obstacle) * moveRadius obstacle;
                  offsetY = cos (time * moveSpeed obstacle * (7 / 10)) * moveRadius obstacle * (1 / 2)
              in obstacle\<lparr>Obstacle.x := originalX obstacle + offsetX,
                          Obstacle.y := originalY obstacle + offsetY\<rparr>))
           (obstacles e)\<rparr>)"

text \<open>The DOM effects of the two handlers (a CSS class, a vibration) are not modelled.\<close>

definition onObstacleHit :: "Listeners \<Rightarrow> Obstacle \<Rightarrow> PhysicsEngine \<Rightarrow> PhysicsEngine" where
  "onObstacleHit listeners obstacle e = dispatchEvent listeners (ObstacleHit obstacle) e"

definition onGoalReached :: "Listeners \<Rightarrow> PhysicsEngine \<Rightarrow> PhysicsEngine" where
  "onGoalReached listeners e = dispatchEvent listeners GoalReached e"

text \<open>
  \<^verbatim>\<open>checkCollisions\<close>. \<open>obstacleStep\<close> is the body of the \<^verbatim>\<open>forEach\<close>, \<open>obstaclePass\<close> the
  \<^verbatim>\<open>forEach\<close> over the array as it is when the loop starts, \<open>goalTest\<close> the condition
  \<^verbatim>\<open>this.goal && this.ball.checkGoalCollision(this.goal)\<close>. Inside the loop and in this
  condition the code reads \<^verbatim>\<open>this.ball\<close> without a test: had a listener removed the ball
  in between, the code would throw. The model leaves the engine as it is there, and the
  condition false; neither of the two sets of listeners below removes the ball.
\<close>

definition obstacleStep :: "Listeners \<Rightarrow> Obstacle \<Rightarrow> PhysicsEngine \<Rightarrow> PhysicsEngine" where
  "obstacleStep listeners obstacle e =
     (case ball e of
        None \<Rightarrow> e
      | Some b \<Rightarrow>
          (let (hit, b) = checkObstacleCollision obstacle b;
               e = e\<lparr>ball := Some b\<rparr>
           in if hit
              then (let e = e\<lparr>ball := Some (handleObstacleCollision obstacle b)\<rparr>
                    in onObstacleHit listeners obstacle e)
              else e))"

definition obstaclePass :: "Listeners \<Rightarrow> PhysicsEngine \<Rightarrow> PhysicsEngine" where
  "obstaclePass listeners e = fold (obstacleStep listeners) (obstacles e) e"

definition goalTest :: "PhysicsEngine \<Rightarrow> bool" where
  "goalTest e =
     (case goal e of
        None \<Rightarrow> False
      | Some g \<Rightarrow> (case ball e of None \<Rightarrow> False | Some b \<Rightarrow> fst (checkGoalCollision g b)))"

definition checkCollisions :: "Listeners \<Rightarrow> PhysicsEngine \<Rightarrow> PhysicsEngine" where
  "checkCollisions listeners e =
     (case ball e of
        None \<Rightarrow> e
      | Some _ \<Rightarrow>
          (let e = obstaclePass listeners e
           in if goalTest e then onGoalReached listeners e else e))"

text \<open>
  \<^verbatim>\<open>update\<close> of the engine: one tick. \<open>currentTime\<close> is the clock value read at the top of the
  tick, \<open>obstacleTime\<close> the one \<^verbatim>\<open>updateMovingObstacles\<close> reads. The last statement asks the
  browser for the next call.
\<close>

definition PhysicsEngine_update :: "Listeners \<Rightarrow> real \<Rightarrow> real \<Rightarrow> PhysicsEngine \<Rightarrow> PhysicsEngine" where
  "PhysicsEngine_update listeners currentTime obstacleTime e =
     (if \<not> isRunning e then e
      else
        (let e = e\<lparr>deltaTime := currentTime - lastTime e\<rparr>;
             e = e\<lparr>lastTime := currentTime\<rparr>;
             e = updateMovingObstacles obstacleTime e;
             e = (case ball e of
                    None \<Rightarrow> e
                  | Some b \<Rightarrow>
                      (let b = applyForce (gravity_x e) (gravity_y e) b;
                           b = update b
                       in checkCollisions listeners (e\<lparr>ball := Some b\<rparr>)))
         in e\<lparr>requestedFrames := Suc (requestedFrames e)\<rparr>))"

text \<open>\<^verbatim>\<open>start\<close>: \<open>now\<close> is the clock value it reads; then it runs one tick itself.\<close>

definition start :: "Listeners \<Rightarrow> real \<Rightarrow> real \<Rightarrow> real \<Rightarrow> PhysicsEngine \<Rightarrow> PhysicsEngine" where
  "start listeners now currentTime obstacleTime e =
     PhysicsEngine_update listeners currentTime obstacleTime
       (e\<lparr>isRunning := True, lastTime := now\<rparr>)"

text \<open>
  The browser runs a requested callback: \<^verbatim>\<open>() => this.update()\<close>. \<open>runFrames\<close> runs one
  callback for each pair of clock values in the list.
\<close>

definition runFrame :: "Listeners \<Rightarrow> real \<times> real \<Rightarrow> PhysicsEngine \<Rightarrow> PhysicsEngine" where
  "runFrame listeners ts e =
     (if requestedFrames e = 0 then e
      else PhysicsEngine_update listeners (fst ts) (snd ts)
             (e\<lparr>requestedFrames := requestedFrames e - 1\<rparr>))"

definition runFrames :: "Listeners \<Rightarrow> (real \<times> real) list \<Rightarrow> PhysicsEngine \<Rightarrow> PhysicsEngine" where
  "runFrames listeners tss e = fold (runFrame listeners) tss e"

text \<open>
  The listeners of the game controller (\<^verbatim>\<open>TiltRunnerGame.setupGameEvents\<close>), as far as they act on
  the engine: \<^verbatim>\<open>handleObstacleHit\<close> draws an effect, \<^verbatim>\<open>handleGoalReached\<close> calls
  \<^verbatim>\<open>this.physics.stop()\<close>. \<open>noListeners\<close> is the engine with nothing registered.
\<close>

definition gameListeners :: Listeners where
  "gameListeners ev e = (case ev of ObstacleHit obstacle \<Rightarrow> e | GoalReached \<Rightarrow> stop e)"

definition noListeners :: Listeners where
  "noListeners ev e = e"

subsection \<open>Notions of the specification\<close>

text \<open>
  The four phases of \<^verbatim>\<open>Ball.update\<close> as the specification names them: friction, integration,
  boundary clamp (\<open>checkBoundaryCollisions\<close> above), micro-zero.
\<close>

definition frictionPhase :: "Ball \<Rightarrow> Ball" where
  "frictionPhase b = b\<lparr>vx := vx b * friction b, vy := vy b * friction b\<rparr>"

definition integratePhase :: "Ball \<Rightarrow> Ball" where
  "integratePhase b = b\<lparr>Ball.x := Ball.x b + vx b, Ball.y := Ball.y b + vy b\<rparr>"

definition microZeroPhase :: "Ball \<Rightarrow> Ball" where
  "microZeroPhase b =
     b\<lparr>vx := (if \<bar>vx b\<bar> < 1 / 10 then 0 else vx b),
       vy := (if \<bar>vy b\<bar> < 1 / 10 then 0 else vy b)\<rparr>"

text \<open>An edge is violated: the position is outside the bounds.\<close>

definition edgeViolated :: "Ball \<Rightarrow> bool" where
  "edgeViolated b \<longleftrightarrow>
     Ball.x b < left (bounds b) \<or> Ball.x b > right (bounds b) \<or>
     Ball.y b < top_edge (bounds b) \<or> Ball.y b > bottom (bounds b)"

text \<open>
  The position \<^verbatim>\<open>update\<close> tests against the bounds is the one after friction and integration:
  \<open>violatesAtTick b\<close> says that the tick starting from \<open>b\<close> violates an edge.
\<close>

definition violatesAtTick :: "Ball \<Rightarrow> bool" where
  "violatesAtTick b = edgeViolated (integratePhase (frictionPhase b))"

text \<open>\<open>ticks n b\<close>: the ball after \<open>n\<close> calls of \<^verbatim>\<open>update\<close>.\<close>

fun ticks :: "nat \<Rightarrow> Ball \<Rightarrow> Ball" where
  "ticks 0 b = b"
| "ticks (Suc n) b = update (ticks n b)"

text \<open>
  \<open>episodeStarts prev vs\<close>: the number of places where the sequence of truth values \<open>vs\<close>,
  with \<open>prev\<close> in front, goes from false to true: the number of episodes that begin in \<open>vs\<close>.
\<close>

fun episodeStarts :: "bool \<Rightarrow> bool list \<Rightarrow> nat" where
  "episodeStarts prev [] = 0"
| "episodeStarts prev (v # vs) = (if v \<and> \<not> prev then 1 else 0) + episodeStarts v vs"

text \<open>\<open>violations n b\<close>: for each of the first \<open>n\<close> ticks from \<open>b\<close>, whether it violates an edge.\<close>

definition violations :: "nat \<Rightarrow> Ball \<Rightarrow> bool list" where
  "violations n b = map (\<lambda>i. violatesAtTick (ticks i b)) [0..<n]"

text \<open>The velocity before the clamp of \<^verbatim>\<open>applyForce\<close>, and its length.\<close>

definition preClampVx :: "real \<Rightarrow> Ball \<Rightarrow> real" where
  "preClampVx forceX b = vx b + forceX * acceleration b"

definition preClampVy :: "real \<Rightarrow> Ball \<Rightarrow> real" where
  "preClampVy forceY b = vy b + forceY * acceleration b"

definition preClampSpeed :: "real \<Rightarrow> real \<Rightarrow> Ball \<Rightarrow> real" where
  "preClampSpeed forceX forceY b =
     sqrt (preClampVx forceX b * preClampVx forceX b + preClampVy forceY b * preClampVy forceY b)"


text \<open>
  The engine at the moment a tick calls \<^verbatim>\<open>checkCollisions\<close>: the times are recorded, the
  obstacles moved, the force applied to the ball and the ball updated.
\<close>

definition atCollisionCheck :: "real \<Rightarrow> real \<Rightarrow> PhysicsEngine \<Rightarrow> PhysicsEngine" where
  "atCollisionCheck currentTime obstacleTime e =
     (let e = updateMovingObstacles obstacleTime
                (e\<lparr>deltaTime := currentTime - lastTime e, lastTime := currentTime\<rparr>)
      in case ball e of
           None \<Rightarrow> e
         | Some b \<Rightarrow> e\<lparr>ball := Some (update (applyForce (gravity_x e) (gravity_y e) b))\<rparr>)"

text \<open>Concrete objects: a ball as the game creates it, in an arena of 400 by 300.\<close>

definition ball0 :: Ball where
  "ball0 = new_Ball 400 300 50 50 12"

text \<open>An obstacle of 40 by 20 with its corner at (100, 100): its centre is (120, 110).\<close>

definition obstacle0 :: Obstacle where
  "obstacle0 = \<lparr>Obstacle.x = 100, Obstacle.y = 100, width = 40, height = 20,
                 originalX = 100, originalY = 100, moveSpeed = 1, moveDirection = 0,
                 moveRadius = 10\<rparr>"

text \<open>
  A goal of radius 20 at distance 10 from the ball of the game, and an engine that has this
  ball and this goal, no obstacles, no gravity, and has not been started.
\<close>

definition goal0 :: Goal where
  "goal0 = \<lparr>Goal.x = 60, Goal.y = 50, Goal.radius = 20\<rparr>"

definition engine0 :: PhysicsEngine where
  "engine0 = \<lparr>gravity_x = 0, gravity_y = 0, obstacles = [], goal = Some goal0,
               ball = Some ball0, isRunning = False, lastTime = 0, deltaTime = 0,
               dispatched = [], requestedFrames = 0\<rparr>"

text \<open>
  A ball heading for the lower right corner of the arena, and the same ball one and two ticks
  later: the first tick takes it past the right bound, the second past the bottom bound.
\<close>

definition corner0 :: Ball where
  "corner0 = ball0\<lparr>Ball.x := 380, Ball.y := 270, vx := 20, vy := 10\<rparr>"

definition corner1 :: Ball where
  "corner1 = ball0\<lparr>Ball.x := 388, Ball.y := 559 / 2, vx := - (133 / 10), vy := 19 / 2,
                   isColliding := True, collisionEffects := 1\<rparr>"

definition corner2 :: Ball where
  "corner2 = ball0\<lparr>Ball.x := 75073 / 200, Ball.y := 288, vx := - (2527 / 200),
                   vy := - (2527 / 400), isColliding := True, collisionEffects := 1\<rparr>"

section \<open>The ball of the game\<close>

lemma ball0_fields:
  "vx ball0 = 0" "vy ball0 = 0" "maxSpeed ball0 = 8" "acceleration ball0 = 3 / 10"
  "friction ball0 = 95 / 100" "bounce ball0 = 7 / 10" "Ball.x ball0 = 50" "Ball.y ball0 = 50"
  "Ball.radius ball0 = 12" "isColliding ball0 = False" "collisionEffects ball0 = 0"
  "bounds ball0 = \<lparr>left = 12, right = 388, top_edge = 12, bottom = 288\<rparr>"
  by (simp_all add: ball0_def new_Ball_def updateBounds_def updatePosition_def)

lemma ball0_record:
  "ball0 = \<lparr>Ball.x = 50, Ball.y = 50, startX = 50, startY = 50,
        Ball.radius = 12, vx = 0, vy = 0,
        friction = 95 / 100, bounce = 7 / 10, maxSpeed = 8, acceleration = 3 / 10,
        bounds = \<lparr>left = 12, right = 388, top_edge = 12, bottom = 288\<rparr>,
        isColliding = False, collisionEffects = 0\<rparr>"
  by (simp add: ball0_def new_Ball_def updateBounds_def updatePosition_def)

section \<open>Boundary containment\<close>

lemma boundaryTests_x:
  "left (bounds b) \<le> right (bounds b) \<Longrightarrow>
   left (bounds b) \<le> Ball.x (fst (boundaryTests b)) \<and>
   Ball.x (fst (boundaryTests b)) \<le> right (bounds b)"
  by (simp add: boundaryTests_def Let_def split_def)

lemma boundaryTests_y:
  "top_edge (bounds b) \<le> bottom (bounds b) \<Longrightarrow>
   top_edge (bounds b) \<le> Ball.y (fst (boundaryTests b)) \<and>
   Ball.y (fst (boundaryTests b)) \<le> bottom (bounds b)"
  by (simp add: boundaryTests_def Let_def split_def)

lemma boundaryTests_bounds: "bounds (fst (boundaryTests b)) = bounds b"
  by (simp add: boundaryTests_def Let_def split_def)

lemma checkBoundaryCollisions_pos:
  "Ball.x (checkBoundaryCollisions b) = Ball.x (fst (boundaryTests b))"
  "Ball.y (checkBoundaryCollisions b) = Ball.y (fst (boundaryTests b))"
  "bounds (checkBoundaryCollisions b) = bounds b"
  by (simp_all add: checkBoundaryCollisions_def Let_def split_def onCollision_def
        boundaryTests_bounds)

lemma update_phases:
  "update b =
     microZeroPhase (updatePosition (checkBoundaryCollisions (integratePhase (frictionPhase b))))"
  by (simp add: update_def microZeroPhase_def integratePhase_def frictionPhase_def Let_def
        updatePosition_def)

lemma update_x:
  "Ball.x (update b) = Ball.x (fst (boundaryTests (integratePhase (frictionPhase b))))"
  by (simp add: update_phases microZeroPhase_def updatePosition_def checkBoundaryCollisions_pos)

lemma update_y:
  "Ball.y (update b) = Ball.y (fst (boundaryTests (integratePhase (frictionPhase b))))"
  by (simp add: update_phases microZeroPhase_def updatePosition_def checkBoundaryCollisions_pos)

lemma update_bounds: "bounds (update b) = bounds b"
  by (simp add: update_phases microZeroPhase_def updatePosition_def checkBoundaryCollisions_pos
        integratePhase_def frictionPhase_def)

text \<open>
  C1. Whatever the position and the velocity of the ball, if its bounds are well formed
  (left \<open>\<le>\<close> right and top \<open>\<le>\<close> bottom), then after \<^verbatim>\<open>update()\<close> the position lies within the
  bounds: left \<open>\<le>\<close> x \<open>\<le>\<close> right and top \<open>\<le>\<close> y \<open>\<le>\<close> bottom.
\<close>

theorem C1_boundary_containment:
  assumes "left (bounds b) \<le> right (bounds b)" and "top_edge (bounds b) \<le> bottom (bounds b)"
  shows "left (bounds b) \<le> Ball.x (update b) \<and> Ball.x (update b) \<le> right (bounds b) \<and>
         top_edge (bounds b) \<le> Ball.y (update b) \<and> Ball.y (update b) \<le> bottom (bounds b)"
proof -
  let ?c = "integratePhase (frictionPhase b)"
  have bc: "bounds ?c = bounds b"
    by (simp add: integratePhase_def frictionPhase_def)
  from assms boundaryTests_x [of ?c] boundaryTests_y [of ?c] bc
  show ?thesis by (simp add: update_x update_y)
qed

text \<open>
  The ball of the game, put 112 to the right of the right bound and moving right at 30: its
  bounds are well formed, and after \<^verbatim>\<open>update()\<close> it is within them.
\<close>

theorem C1_boundary_containment_witness:
  "left (bounds (ball0\<lparr>Ball.x := 500, vx := 30\<rparr>))
     \<le> right (bounds (ball0\<lparr>Ball.x := 500, vx := 30\<rparr>)) \<and>
   top_edge (bounds (ball0\<lparr>Ball.x := 500, vx := 30\<rparr>))
     \<le> bottom (bounds (ball0\<lparr>Ball.x := 500, vx := 30\<rparr>)) \<and>
   12 \<le> Ball.x (update (ball0\<lparr>Ball.x := 500, vx := 30\<rparr>)) \<and>
   Ball.x (update (ball0\<lparr>Ball.x := 500, vx := 30\<rparr>)) \<le> 388 \<and>
   12 \<le> Ball.y (update (ball0\<lparr>Ball.x := 500, vx := 30\<rparr>)) \<and>
   Ball.y (update (ball0\<lparr>Ball.x := 500, vx := 30\<rparr>)) \<le> 288"
  using C1_boundary_containment [of "ball0\<lparr>Ball.x := 500, vx := 30\<rparr>"]
  by (simp add: ball0_fields)

section \<open>The queries are pure\<close>

text \<open>
  C10. \<^verbatim>\<open>checkObstacleCollision\<close> and \<^verbatim>\<open>checkGoalCollision\<close> are pure queries: for every ball,
  obstacle and goal, the ball after the call is the ball before it, in every field (position,
  velocity, radius, bounds, \<open>isColliding\<close> and the rest).
\<close>

theorem C10_queries_pure:
  "snd (checkObstacleCollision obstacle b) = b \<and> snd (checkGoalCollision g b) = b"
  by (simp add: checkObstacleCollision_def checkGoalCollision_def Let_def)

section \<open>The two branches of applyForce\<close>

text \<open>
  \<^verbatim>\<open>applyForce\<close> in closed form: the velocity after the addition is
  (\<open>preClampVx\<close>, \<open>preClampVy\<close>); it is kept when its length is at most \<open>maxSpeed\<close>, and
  divided by its length and multiplied by \<open>maxSpeed\<close> otherwise.
\<close>

lemma applyForce_free:
  assumes "preClampSpeed fx fy b \<le> maxSpeed b"
  shows "applyForce fx fy b = b\<lparr>vx := preClampVx fx b, vy := preClampVy fy b\<rparr>"
  using assms
  by (simp add: applyForce_def preClampSpeed_def preClampVx_def preClampVy_def Let_def)


section \<open>Applying a force twice\<close>

text \<open>
  A ball at full speed to the right, velocity (8, 0), and the force (0, 20), which adds (0, 6).
  Applied twice: (8, 6) has length 10 and is clamped to (6.4, 4.8); then (6.4, 10.8) is clamped.
  Applied once doubled: (8, 12) is clamped. The two results point in different directions.
\<close>

lemma sqrt_100: "sqrt 100 = (10::real)"
  using real_sqrt_abs [of 10] by simp









section \<open>Obstacle collision at the centre\<close>

text \<open>
  C6. If the centre of the ball is exactly the centre of the obstacle's rectangle, the vector
  between them has length zero, the test \<^verbatim>\<open>distance > 0\<close> fails, and
  \<^verbatim>\<open>handleObstacleCollision\<close> leaves \<open>x\<close>, \<open>y\<close>, \<open>vx\<close> and \<open>vy\<close> as they are: it does
  nothing but call \<^verbatim>\<open>onCollision\<close>.
\<close>

theorem C6_center_coincides:
  assumes "Ball.x b = Obstacle.x obstacle + width obstacle / 2"
    and "Ball.y b = Obstacle.y obstacle + height obstacle / 2"
  shows "Ball.x (handleObstacleCollision obstacle b) = Ball.x b \<and>
         Ball.y (handleObstacleCollision obstacle b) = Ball.y b \<and>
         vx (handleObstacleCollision obstacle b) = vx b \<and>
         vy (handleObstacleCollision obstacle b) = vy b \<and>
         handleObstacleCollision obstacle b = onCollision b"
  using assms by (simp add: handleObstacleCollision_def onCollision_def Let_def)

text \<open>A moving ball at the centre of \<open>obstacle0\<close>.\<close>

theorem C6_center_coincides_witness:
  "Ball.x (ball0\<lparr>Ball.x := 120, Ball.y := 110, vx := 3, vy := - 2\<rparr>)
     = Obstacle.x obstacle0 + width obstacle0 / 2 \<and>
   Ball.y (ball0\<lparr>Ball.x := 120, Ball.y := 110, vx := 3, vy := - 2\<rparr>)
     = Obstacle.y obstacle0 + height obstacle0 / 2 \<and>
   Ball.x (handleObstacleCollision obstacle0 (ball0\<lparr>Ball.x := 120, Ball.y := 110, vx := 3, vy := - 2\<rparr>)) = 120 \<and>
   Ball.y (handleObstacleCollision obstacle0 (ball0\<lparr>Ball.x := 120, Ball.y := 110, vx := 3, vy := - 2\<rparr>)) = 110 \<and>
   vx (handleObstacleCollision obstacle0 (ball0\<lparr>Ball.x := 120, Ball.y := 110, vx := 3, vy := - 2\<rparr>)) = 3 \<and>
   vy (handleObstacleCollision obstacle0 (ball0\<lparr>Ball.x := 120, Ball.y := 110, vx := 3, vy := - 2\<rparr>)) = - 2"
  using C6_center_coincides [of "ball0\<lparr>Ball.x := 120, Ball.y := 110, vx := 3, vy := - 2\<rparr>" obstacle0]
  by (simp add: obstacle0_def onCollision_def)

section \<open>The boundary hook is edge-triggered\<close>

text \<open>
  The local \<^verbatim>\<open>collided\<close> is true exactly when the position tested is outside the bounds, also
  for bounds that are not well formed: a test that fires sets it, and a test that does not
  fire leaves the coordinate to the next test.
\<close>

lemma boundaryTests_collided: "snd (boundaryTests c) = edgeViolated c"
  by (auto simp add: boundaryTests_def edgeViolated_def Let_def split_def)

lemma boundaryTests_inside: "\<not> edgeViolated c \<Longrightarrow> boundaryTests c = (c, False)"
  by (simp add: boundaryTests_def edgeViolated_def Let_def)

lemma boundaryTests_right:
  assumes "\<not> Ball.x c < left (bounds c)" and "Ball.x c > right (bounds c)"
    and "\<not> Ball.y c < top_edge (bounds c)" and "\<not> Ball.y c > bottom (bounds c)"
  shows "boundaryTests c = (c\<lparr>Ball.x := right (bounds c), vx := - vx c * bounce c\<rparr>, True)"
  using assms by (simp add: boundaryTests_def Let_def)

lemma boundaryTests_bottom:
  assumes "\<not> Ball.x c < left (bounds c)" and "\<not> Ball.x c > right (bounds c)"
    and "\<not> Ball.y c < top_edge (bounds c)" and "Ball.y c > bottom (bounds c)"
  shows "boundaryTests c = (c\<lparr>Ball.y := bottom (bounds c), vy := - vy c * bounce c\<rparr>, True)"
  using assms by (simp add: boundaryTests_def Let_def)

lemma boundaryTests_flags:
  "isColliding (fst (boundaryTests c)) = isColliding c"
  "collisionEffects (fst (boundaryTests c)) = collisionEffects c"
  by (simp_all add: boundaryTests_def Let_def split_def)

lemma checkBoundaryCollisions_flag:
  "isColliding (checkBoundaryCollisions c) = edgeViolated c"
  by (simp add: checkBoundaryCollisions_def Let_def split_def boundaryTests_collided)

lemma checkBoundaryCollisions_effects:
  "collisionEffects (checkBoundaryCollisions c) =
     collisionEffects c + (if edgeViolated c \<and> \<not> isColliding c then 1 else 0)"
  by (simp add: checkBoundaryCollisions_def Let_def split_def boundaryTests_collided
        boundaryTests_flags onCollision_def)

lemma checkBoundaryCollisions_inside:
  "\<not> edgeViolated c \<Longrightarrow> checkBoundaryCollisions c = c\<lparr>isColliding := False\<rparr>"
  by (simp add: checkBoundaryCollisions_def boundaryTests_inside)

lemma update_flag: "isColliding (update b) = violatesAtTick b"
  by (simp add: update_phases microZeroPhase_def updatePosition_def checkBoundaryCollisions_flag
        violatesAtTick_def)

lemma update_effects:
  "collisionEffects (update b) =
     collisionEffects b + (if violatesAtTick b \<and> \<not> isColliding b then 1 else 0)"
proof -
  have "collisionEffects (update b) =
          collisionEffects (checkBoundaryCollisions (integratePhase (frictionPhase b)))"
    by (simp add: update_phases microZeroPhase_def updatePosition_def)
  also have "\<dots> = collisionEffects (integratePhase (frictionPhase b)) +
      (if edgeViolated (integratePhase (frictionPhase b)) \<and>
          \<not> isColliding (integratePhase (frictionPhase b)) then 1 else 0)"
    by (rule checkBoundaryCollisions_effects)
  also have "\<dots> = collisionEffects b + (if violatesAtTick b \<and> \<not> isColliding b then 1 else 0)"
    by (simp add: violatesAtTick_def integratePhase_def frictionPhase_def)
  finally show ?thesis .
qed

lemma episodeStarts_snoc:
  "episodeStarts prev (vs @ [v]) =
     episodeStarts prev vs + (if v \<and> \<not> last (prev # vs) then 1 else 0)"
  by (induction vs arbitrary: prev) auto

lemma violations_Suc: "violations (Suc n) b = violations n b @ [violatesAtTick (ticks n b)]"
  by (simp add: violations_def)

lemma last_violations: "last (isColliding b # violations n b) = isColliding (ticks n b)"
  by (cases n) (simp_all add: violations_def update_flag)

lemma ticks_effects:
  "collisionEffects (ticks n b) =
     collisionEffects b + episodeStarts (isColliding b) (violations n b)"
proof (induction n)
  case 0
  show ?case by (simp add: violations_def)
next
  case (Suc n)
  have "collisionEffects (ticks (Suc n) b) =
          collisionEffects (ticks n b) +
          (if violatesAtTick (ticks n b) \<and> \<not> isColliding (ticks n b) then 1 else 0)"
    by (simp add: update_effects)
  also have "\<dots> = collisionEffects b + episodeStarts (isColliding b) (violations (Suc n) b)"
    by (simp only: Suc.IH violations_Suc episodeStarts_snoc last_violations add.assoc)
  finally show ?case .
qed

text \<open>
  C5. The hook \<^verbatim>\<open>onCollision\<close> of the boundary check fires on the tick where an edge is violated
  and \<open>isColliding\<close> was false, and on no other tick; after each tick \<open>isColliding\<close> says
  whether that tick violated an edge, so it stays true while violations go on (and the hook is
  silent) and is false after the first tick without a violation. Over any number of
  \<^verbatim>\<open>update()\<close> calls the hook has fired once for each episode of violation that began.
\<close>

theorem C5_edge_triggered:
  "collisionEffects (update b) =
     collisionEffects b + (if violatesAtTick b \<and> \<not> isColliding b then 1 else 0) \<and>
   isColliding (update b) = violatesAtTick b \<and>
   collisionEffects (ticks n b) =
     collisionEffects b + episodeStarts (isColliding b) (violations n b)"
  by (simp only: update_effects update_flag ticks_effects simp_thms)

lemma corner_tick1: "update corner0 = corner1"
proof -
  let ?c = "integratePhase (frictionPhase corner0)"
  have c: "?c = ball0\<lparr>Ball.x := 399, Ball.y := 559 / 2, vx := 19, vy := 19 / 2\<rparr>"
    by (simp add: integratePhase_def frictionPhase_def corner0_def ball0_record)
  have "boundaryTests (ball0\<lparr>Ball.x := 399, Ball.y := 559 / 2, vx := 19, vy := 19 / 2\<rparr>) =
          (ball0\<lparr>Ball.x := 388, Ball.y := 559 / 2, vx := - (133 / 10), vy := 19 / 2\<rparr>, True)"
    by (subst boundaryTests_right) (simp_all add: ball0_record)
  then have "checkBoundaryCollisions ?c = corner1"
    by (simp add: c checkBoundaryCollisions_def onCollision_def corner1_def ball0_record)
  moreover have "microZeroPhase (updatePosition corner1) = corner1"
    by (simp add: microZeroPhase_def updatePosition_def corner1_def ball0_record)
  ultimately show ?thesis by (simp only: update_phases)
qed

lemma corner_tick2: "update corner1 = corner2"
proof -
  let ?c = "integratePhase (frictionPhase corner1)"
  have c: "?c = ball0\<lparr>Ball.x := 75073 / 200, Ball.y := 11541 / 40, vx := - (2527 / 200),
                    vy := 361 / 40, isColliding := True, collisionEffects := 1\<rparr>"
    by (simp add: integratePhase_def frictionPhase_def corner1_def ball0_record)
  have "boundaryTests (ball0\<lparr>Ball.x := 75073 / 200, Ball.y := 11541 / 40, vx := - (2527 / 200),
                    vy := 361 / 40, isColliding := True, collisionEffects := 1\<rparr>) =
          (ball0\<lparr>Ball.x := 75073 / 200, Ball.y := 288, vx := - (2527 / 200),
                    vy := - (2527 / 400), isColliding := True, collisionEffects := 1\<rparr>, True)"
    by (subst boundaryTests_bottom) (simp_all add: ball0_record)
  then have "checkBoundaryCollisions ?c = corner2"
    by (simp add: c checkBoundaryCollisions_def onCollision_def corner2_def ball0_record)
  moreover have "microZeroPhase (updatePosition corner2) = corner2"
    by (simp add: microZeroPhase_def updatePosition_def corner2_def ball0_record)
  ultimately show ?thesis by (simp only: update_phases)
qed

lemma corner_violations:
  "violatesAtTick corner0" "violatesAtTick corner1" "\<not> violatesAtTick corner2"
  by (simp_all add: violatesAtTick_def edgeViolated_def integratePhase_def frictionPhase_def
        corner0_def corner1_def corner2_def ball0_record)

lemma corner_ticks: "ticks 1 corner0 = corner1" "ticks 2 corner0 = corner2"
proof -
  show 1: "ticks 1 corner0 = corner1"
    by (simp add: corner_tick1)
  have "ticks 2 corner0 = update (ticks 1 corner0)"
    by (simp add: numeral_2_eq_2)
  then show "ticks 2 corner0 = corner2"
    by (simp only: 1 corner_tick2)
qed

text \<open>
  Three ticks of the ball heading for the corner: the first two violate an edge (the right
  one, then the bottom one), the third does not. The hook fires once in the three ticks, and
  \<open>isColliding\<close> is true after the first and the second tick and false after the third.
\<close>

theorem C5_edge_triggered_witness:
  "violations 3 corner0 = [True, True, False] \<and>
   collisionEffects corner0 = 0 \<and> \<not> isColliding corner0 \<and>
   collisionEffects (ticks 3 corner0) = 1 \<and>
   isColliding (update corner0) \<and> isColliding (update corner1) \<and> \<not> isColliding (update corner2)"
proof -
  have "[0..<3] = [0, 1, 2]"
    by (simp add: upt_rec)
  then have v: "violations 3 corner0 = [True, True, False]"
    by (simp add: violations_def corner_ticks corner_tick1 corner_violations)
  have i: "collisionEffects corner0 = 0" "\<not> isColliding corner0"
    by (simp_all add: corner0_def ball0_fields)
  from C5_edge_triggered [of corner0 3] C5_edge_triggered [of corner1 0]
    C5_edge_triggered [of corner2 0] v i corner_violations
  show ?thesis by simp
qed


section \<open>The scenario of one push and one tick\<close>

lemma sqrt_9_100: "sqrt (9 / 100) = (3 / 10 :: real)"
  using real_sqrt_abs [of "3 / 10"] by (simp add: power2_eq_square)

text \<open>
  C8. A ball with acceleration 0.3 and friction 0.95, at rest, away from the bounds (within
  them, and at least 0.285 from the right one), whose \<open>maxSpeed\<close> is at least 0.3 (the
  constructor sets 8): \<^verbatim>\<open>applyForce(1, 0)\<close> gives velocity (0.3, 0); \<^verbatim>\<open>update()\<close> then gives
  velocity (0.285, 0) and moves the ball by 0.285 in x and 0 in y. \<^verbatim>\<open>update()\<close> is friction,
  then integration, then the boundary clamp, then micro-zero, in this order, for every ball.
\<close>

theorem C8_scenario:
  assumes "acceleration b = 3 / 10" and "friction b = 95 / 100"
    and "vx b = 0" and "vy b = 0" and "3 / 10 \<le> maxSpeed b"
    and "left (bounds b) \<le> Ball.x b" and "Ball.x b + 285 / 1000 \<le> right (bounds b)"
    and "top_edge (bounds b) \<le> Ball.y b" and "Ball.y b \<le> bottom (bounds b)"
  shows "vx (applyForce 1 0 b) = 3 / 10 \<and> vy (applyForce 1 0 b) = 0 \<and>
         vx (update (applyForce 1 0 b)) = 285 / 1000 \<and>
         vy (update (applyForce 1 0 b)) = 0 \<and>
         Ball.x (update (applyForce 1 0 b)) = Ball.x b + 285 / 1000 \<and>
         Ball.y (update (applyForce 1 0 b)) = Ball.y b \<and>
         update c =
           microZeroPhase (updatePosition (checkBoundaryCollisions
             (integratePhase (frictionPhase c))))"
proof -
  have s: "preClampSpeed 1 0 b = 3 / 10"
    using assms(1,3,4) by (simp add: preClampSpeed_def preClampVx_def preClampVy_def sqrt_9_100)
  have "preClampSpeed 1 0 b \<le> maxSpeed b"
    using assms(5) by (simp add: s)
  from applyForce_free [OF this]
  have b1: "applyForce 1 0 b = b\<lparr>vx := 3 / 10, vy := 0\<rparr>"
    using assms(1,3,4) by (simp add: preClampVx_def preClampVy_def)
  let ?c = "integratePhase (frictionPhase (b\<lparr>vx := 3 / 10, vy := 0\<rparr>))"
  have c: "?c = b\<lparr>vx := 285 / 1000, vy := 0, Ball.x := Ball.x b + 285 / 1000, Ball.y := Ball.y b\<rparr>"
    using assms(2) by (simp add: integratePhase_def frictionPhase_def)
  have "\<not> edgeViolated ?c"
    using assms(6-9) by (simp add: c edgeViolated_def)
  from checkBoundaryCollisions_inside [OF this]
  have u: "update (b\<lparr>vx := 3 / 10, vy := 0\<rparr>) =
           microZeroPhase (updatePosition (?c\<lparr>isColliding := False\<rparr>))"
    by (simp only: update_phases)
  have v: "vx (update (b\<lparr>vx := 3 / 10, vy := 0\<rparr>)) = 285 / 1000"
    "vy (update (b\<lparr>vx := 3 / 10, vy := 0\<rparr>)) = 0"
    "Ball.x (update (b\<lparr>vx := 3 / 10, vy := 0\<rparr>)) = Ball.x b + 285 / 1000"
    "Ball.y (update (b\<lparr>vx := 3 / 10, vy := 0\<rparr>)) = Ball.y b"
    by (simp_all add: u c microZeroPhase_def updatePosition_def)
  have a: "vx (applyForce 1 0 b) = 3 / 10" "vy (applyForce 1 0 b) = 0"
    by (simp_all add: b1)
  have r: "vx (update (applyForce 1 0 b)) = 285 / 1000"
    "vy (update (applyForce 1 0 b)) = 0"
    "Ball.x (update (applyForce 1 0 b)) = Ball.x b + 285 / 1000"
    "Ball.y (update (applyForce 1 0 b)) = Ball.y b"
    by (simp_all only: b1 v)
  from a r update_phases [of c] show ?thesis by blast
qed

text \<open>The ball of the game, at (50, 50) in the arena of 400 by 300.\<close>

theorem C8_scenario_witness:
  "acceleration ball0 = 3 / 10 \<and> friction ball0 = 95 / 100 \<and> vx ball0 = 0 \<and> vy ball0 = 0 \<and>
   3 / 10 \<le> maxSpeed ball0 \<and>
   left (bounds ball0) \<le> Ball.x ball0 \<and> Ball.x ball0 + 285 / 1000 \<le> right (bounds ball0) \<and>
   top_edge (bounds ball0) \<le> Ball.y ball0 \<and> Ball.y ball0 \<le> bottom (bounds ball0) \<and>
   vx (applyForce 1 0 ball0) = 3 / 10 \<and> vy (applyForce 1 0 ball0) = 0 \<and>
   vx (update (applyForce 1 0 ball0)) = 285 / 1000 \<and>
   vy (update (applyForce 1 0 ball0)) = 0 \<and>
   Ball.x (update (applyForce 1 0 ball0)) = 50 + 285 / 1000 \<and>
   Ball.y (update (applyForce 1 0 ball0)) = 50"
  using C8_scenario [of ball0 ball0]
  by (simp add: ball0_fields)

section \<open>Reaching the goal\<close>

text \<open>
  The listeners of the game do nothing to the engine on an obstacle hit, so the obstacle loop
  runs with them as it does with none; and it leaves the running flag, the clock fields and
  the requested frames alone.
\<close>

lemma obstacleStep_game: "obstacleStep gameListeners obstacle e = obstacleStep noListeners obstacle e"
  by (simp add: obstacleStep_def onObstacleHit_def dispatchEvent_def gameListeners_def
        noListeners_def Let_def split_def split: option.splits)

lemma obstaclePass_game: "obstaclePass gameListeners e = obstaclePass noListeners e"
proof -
  have "obstacleStep gameListeners = obstacleStep noListeners"
    by (intro ext) (rule obstacleStep_game)
  then show ?thesis by (simp add: obstaclePass_def)
qed

lemma obstacleStep_frame:
  "isRunning (obstacleStep noListeners obstacle e) = isRunning e"
  "requestedFrames (obstacleStep noListeners obstacle e) = requestedFrames e"
  "deltaTime (obstacleStep noListeners obstacle e) = deltaTime e"
  "lastTime (obstacleStep noListeners obstacle e) = lastTime e"
  by (simp_all add: obstacleStep_def onObstacleHit_def dispatchEvent_def noListeners_def
        Let_def split_def split: option.splits)

lemma fold_obstacleStep_frame:
  "isRunning (fold (obstacleStep noListeners) os e) = isRunning e \<and>
   requestedFrames (fold (obstacleStep noListeners) os e) = requestedFrames e \<and>
   deltaTime (fold (obstacleStep noListeners) os e) = deltaTime e \<and>
   lastTime (fold (obstacleStep noListeners) os e) = lastTime e"
  by (induction os arbitrary: e) (simp_all add: obstacleStep_frame)

lemma obstaclePass_frame:
  "isRunning (obstaclePass noListeners e) = isRunning e"
  "requestedFrames (obstaclePass noListeners e) = requestedFrames e"
  "deltaTime (obstaclePass noListeners e) = deltaTime e"
  "lastTime (obstaclePass noListeners e) = lastTime e"
  by (simp_all add: obstaclePass_def fold_obstacleStep_frame)

lemma checkCollisions_detects:
  assumes "ball e \<noteq> None" and "goalTest (obstaclePass listeners e)"
  shows "checkCollisions listeners e =
           listeners GoalReached
             ((obstaclePass listeners e)
                \<lparr>dispatched := dispatched (obstaclePass listeners e) @ [GoalReached]\<rparr>)"
  using assms
  by (auto simp add: checkCollisions_def onGoalReached_def dispatchEvent_def Let_def
        split: option.splits)

lemma update_stopped: "\<not> isRunning e \<Longrightarrow> PhysicsEngine_update listeners t t' e = e"
  by (simp add: PhysicsEngine_update_def)

lemma runFrame_stopped:
  "\<not> isRunning e \<Longrightarrow>
   runFrame listeners ts e = e\<lparr>requestedFrames := requestedFrames e - 1\<rparr>"
  by (simp add: runFrame_def PhysicsEngine_update_def)

lemma runFrames_stopped:
  "\<not> isRunning e \<Longrightarrow>
   runFrames listeners tss e = e\<lparr>requestedFrames := requestedFrames e - length tss\<rparr>"
proof (induction tss arbitrary: e)
  case Nil
  then show ?case by (simp add: runFrames_def)
next
  case (Cons ts tss)
  have "runFrames listeners (ts # tss) e = runFrames listeners tss (runFrame listeners ts e)"
    by (simp add: runFrames_def)
  also have "\<dots> = runFrames listeners tss (e\<lparr>requestedFrames := requestedFrames e - 1\<rparr>)"
    using Cons.prems by (simp add: runFrame_stopped)
  also have "\<dots> = e\<lparr>requestedFrames := requestedFrames e - length (ts # tss)\<rparr>"
    using Cons.prems by (simp add: Cons.IH)
  finally show ?case .
qed


lemma update_running:
  assumes "isRunning e" and "ball e \<noteq> None"
  shows "PhysicsEngine_update listeners t t' e =
           (checkCollisions listeners (atCollisionCheck t t' e))
             \<lparr>requestedFrames :=
                Suc (requestedFrames (checkCollisions listeners (atCollisionCheck t t' e)))\<rparr>"
  using assms
  by (auto simp add: PhysicsEngine_update_def atCollisionCheck_def updateMovingObstacles_def
        Let_def split: option.splits)

lemma atCollisionCheck_frame:
  "isRunning (atCollisionCheck t t' e) = isRunning e"
  "(ball (atCollisionCheck t t' e) = None) = (ball e = None)"
  "deltaTime (atCollisionCheck t t' e) = t - lastTime e"
  "requestedFrames (atCollisionCheck t t' e) = requestedFrames e"
  by (simp_all add: atCollisionCheck_def updateMovingObstacles_def Let_def split: option.splits)

lemma checkCollisions_none: "ball e = None \<Longrightarrow> checkCollisions listeners e = e"
  by (simp add: checkCollisions_def)

lemma checkCollisions_game_frame:
  "deltaTime (checkCollisions gameListeners e) = deltaTime e"
  "requestedFrames (checkCollisions gameListeners e) = requestedFrames e"
  by (simp_all add: checkCollisions_def onGoalReached_def dispatchEvent_def gameListeners_def
        stop_def Let_def obstaclePass_game obstaclePass_frame split: option.splits)

lemma update_game_ticks:
  assumes "isRunning e"
  shows "deltaTime (PhysicsEngine_update gameListeners t t' e) = t - lastTime e"
    and "requestedFrames (PhysicsEngine_update gameListeners t t' e) = Suc (requestedFrames e)"
proof -
  show "deltaTime (PhysicsEngine_update gameListeners t t' e) = t - lastTime e"
  proof (cases "ball e = None")
    case True
    with assms show ?thesis
      by (simp add: PhysicsEngine_update_def updateMovingObstacles_def Let_def)
  next
    case False
    with assms show ?thesis
      by (simp add: update_running checkCollisions_game_frame atCollisionCheck_frame)
  qed
  show "requestedFrames (PhysicsEngine_update gameListeners t t' e) = Suc (requestedFrames e)"
  proof (cases "ball e = None")
    case True
    with assms show ?thesis
      by (simp add: PhysicsEngine_update_def updateMovingObstacles_def Let_def)
  next
    case False
    with assms show ?thesis
      by (simp add: update_running checkCollisions_game_frame atCollisionCheck_frame)
  qed
qed

text \<open>
  C3 as amended. When the collision check of a tick detects the goal, the engine dispatches
  \<open>goalReached\<close> and does not change its running flag itself: with no listener it goes on
  running. With the listeners of the game, whose \<open>goalReached\<close> handler calls \<^verbatim>\<open>stop()\<close>, the
  flag is false when the tick returns and \<open>goalReached\<close> is the last event dispatched; from
  then on every frame callback returns without running a tick (the engine is unchanged but
  for the count of requested frames), whatever the listeners; and \<^verbatim>\<open>start()\<close> runs a tick
  again (it records the time difference and requests a frame).
\<close>

theorem C3_goal_stops_through_listener:
  assumes "isRunning e" and "ball e \<noteq> None"
    and "goalTest (obstaclePass gameListeners (atCollisionCheck t t' e))"
  shows "isRunning (PhysicsEngine_update noListeners t t' e) \<and>
         \<not> isRunning (PhysicsEngine_update gameListeners t t' e) \<and>
         last (dispatched (PhysicsEngine_update gameListeners t t' e)) = GoalReached \<and>
         runFrames listeners tss (PhysicsEngine_update gameListeners t t' e) =
           (PhysicsEngine_update gameListeners t t' e)
             \<lparr>requestedFrames :=
                requestedFrames (PhysicsEngine_update gameListeners t t' e) - length tss\<rparr> \<and>
         deltaTime (start gameListeners now u u' (PhysicsEngine_update gameListeners t t' e))
           = u - now \<and>
         requestedFrames (start gameListeners now u u' (PhysicsEngine_update gameListeners t t' e))
           = Suc (requestedFrames (PhysicsEngine_update gameListeners t t' e))"
proof -
  let ?m = "atCollisionCheck t t' e"
  let ?s = "PhysicsEngine_update gameListeners t t' e"
  have bm: "ball ?m \<noteq> None"
    using assms(2) by (simp add: atCollisionCheck_frame)
  have det': "goalTest (obstaclePass noListeners ?m)"
    using assms(3) by (simp add: obstaclePass_game)
  have g: "checkCollisions gameListeners ?m =
             stop ((obstaclePass gameListeners ?m)
                \<lparr>dispatched := dispatched (obstaclePass gameListeners ?m) @ [GoalReached]\<rparr>)"
    by (simp add: checkCollisions_detects [OF bm assms(3)] gameListeners_def)
  have n: "checkCollisions noListeners ?m =
             (obstaclePass noListeners ?m)
                \<lparr>dispatched := dispatched (obstaclePass noListeners ?m) @ [GoalReached]\<rparr>"
    by (simp add: checkCollisions_detects [OF bm det'] noListeners_def)
  have A: "isRunning (PhysicsEngine_update noListeners t t' e)"
    using assms(1)
    by (simp add: update_running [OF assms(1,2)] n obstaclePass_frame atCollisionCheck_frame)
  have B: "\<not> isRunning ?s"
    by (simp add: update_running [OF assms(1,2)] g stop_def)
  have C: "last (dispatched ?s) = GoalReached"
    by (simp add: update_running [OF assms(1,2)] g stop_def)
  have D: "runFrames listeners tss ?s = ?s\<lparr>requestedFrames := requestedFrames ?s - length tss\<rparr>"
    using B by (rule runFrames_stopped)
  have E: "deltaTime (start gameListeners now u u' ?s) = u - now"
    "requestedFrames (start gameListeners now u u' ?s) = Suc (requestedFrames ?s)"
    by (simp_all add: start_def update_game_ticks)
  from A B C D E show ?thesis by blast
qed


lemma ball0_no_force: "applyForce 0 0 ball0 = ball0"
proof -
  have "preClampSpeed 0 0 ball0 \<le> maxSpeed ball0"
    by (simp add: preClampSpeed_def preClampVx_def preClampVy_def ball0_fields)
  from applyForce_free [OF this] show ?thesis
    by (simp add: preClampVx_def preClampVy_def ball0_record)
qed

lemma ball0_rest: "update ball0 = ball0"
proof -
  have c: "integratePhase (frictionPhase ball0) = ball0"
    by (simp add: integratePhase_def frictionPhase_def ball0_record)
  have "\<not> edgeViolated ball0"
    by (simp add: edgeViolated_def ball0_fields)
  then have "checkBoundaryCollisions ball0 = ball0\<lparr>isColliding := False\<rparr>"
    by (rule checkBoundaryCollisions_inside)
  also have "\<dots> = ball0"
    by (simp add: ball0_record)
  finally have k: "checkBoundaryCollisions ball0 = ball0" .
  have z: "microZeroPhase (updatePosition ball0) = ball0"
    by (simp add: microZeroPhase_def updatePosition_def ball0_record)
  show ?thesis
    by (simp only: update_phases c k z)
qed

lemma engine0_mid:
  "atCollisionCheck t t' (engine0\<lparr>isRunning := True\<rparr>) =
     engine0\<lparr>isRunning := True, deltaTime := t, lastTime := t\<rparr>"
  by (simp add: atCollisionCheck_def updateMovingObstacles_def engine0_def Let_def
        ball0_no_force ball0_rest)

lemma goal0_hit: "fst (checkGoalCollision goal0 ball0)"
  by (simp add: checkGoalCollision_def Let_def goal0_def ball0_fields sqrt_100)

lemma engine0_detects:
  "goalTest (obstaclePass listeners (engine0\<lparr>isRunning := True, deltaTime := t, lastTime := t\<rparr>))"
  by (simp add: obstaclePass_def goalTest_def engine0_def goal0_hit)

text \<open>
  The engine of the example, running: the ball at rest at distance 10 from the centre of the
  goal, radii 12 and 20.
\<close>

theorem C3_goal_stops_through_listener_witness:
  "isRunning (engine0\<lparr>isRunning := True\<rparr>) \<and> ball (engine0\<lparr>isRunning := True\<rparr>) \<noteq> None \<and>
   goalTest (obstaclePass gameListeners (atCollisionCheck 16 16 (engine0\<lparr>isRunning := True\<rparr>))) \<and>
   isRunning (PhysicsEngine_update noListeners 16 16 (engine0\<lparr>isRunning := True\<rparr>)) \<and>
   \<not> isRunning (PhysicsEngine_update gameListeners 16 16 (engine0\<lparr>isRunning := True\<rparr>)) \<and>
   last (dispatched (PhysicsEngine_update gameListeners 16 16 (engine0\<lparr>isRunning := True\<rparr>)))
     = GoalReached"
proof -
  have r: "isRunning (engine0\<lparr>isRunning := True\<rparr>)" by simp
  have b: "ball (engine0\<lparr>isRunning := True\<rparr>) \<noteq> None" by (simp add: engine0_def)
  have d: "goalTest (obstaclePass gameListeners (atCollisionCheck 16 16 (engine0\<lparr>isRunning := True\<rparr>)))"
    by (simp only: engine0_mid engine0_detects)
  from C3_goal_stops_through_listener [OF r b d] r b d show ?thesis by blast
qed

lemma engine0_tick:
  "PhysicsEngine_update noListeners t t' (engine0\<lparr>isRunning := True, dispatched := ds, requestedFrames := n\<rparr>) =
     engine0\<lparr>isRunning := True, deltaTime := t, lastTime := t, dispatched := ds @ [GoalReached],
       requestedFrames := Suc n\<rparr>"
  by (simp add: PhysicsEngine_update_def updateMovingObstacles_def engine0_def Let_def
        ball0_no_force ball0_rest checkCollisions_def obstaclePass_def goalTest_def goal0_hit
        onGoalReached_def dispatchEvent_def noListeners_def)

text \<open>
  C3 as stated fails: the engine alone (nothing registered for its events) is started with the
  ball on the goal. The first tick detects the goal, and after it the engine is still running
  and has requested the next frame; that frame runs a full tick, which detects the goal again.
\<close>

theorem C3_counterexample:
  "isRunning (start noListeners 0 0 0 engine0) \<and>
   dispatched (start noListeners 0 0 0 engine0) = [GoalReached] \<and>
   requestedFrames (start noListeners 0 0 0 engine0) = 1 \<and>
   isRunning (runFrame noListeners (16, 16) (start noListeners 0 0 0 engine0)) \<and>
   dispatched (runFrame noListeners (16, 16) (start noListeners 0 0 0 engine0))
     = [GoalReached, GoalReached]"
proof -
  have "engine0\<lparr>isRunning := True, lastTime := 0\<rparr> =
        engine0\<lparr>isRunning := True, dispatched := [], requestedFrames := 0\<rparr>"
    by (simp add: engine0_def)
  then have s: "start noListeners 0 0 0 engine0 =
      engine0\<lparr>isRunning := True, deltaTime := 0, lastTime := 0, dispatched := [GoalReached],
        requestedFrames := Suc 0\<rparr>"
    by (simp add: start_def engine0_tick)
  have "runFrame noListeners (16, 16)
          (engine0\<lparr>isRunning := True, deltaTime := 0, lastTime := 0, dispatched := [GoalReached],
             requestedFrames := Suc 0\<rparr>) =
        PhysicsEngine_update noListeners 16 16
          (engine0\<lparr>isRunning := True, dispatched := [GoalReached], requestedFrames := 0\<rparr>)"
    by (simp add: runFrame_def engine0_def)
  also have "\<dots> = engine0\<lparr>isRunning := True, deltaTime := 16, lastTime := 16,
        dispatched := [GoalReached, GoalReached], requestedFrames := Suc 0\<rparr>"
    by (simp add: engine0_tick)
  finally have f: "runFrame noListeners (16, 16)
          (engine0\<lparr>isRunning := True, deltaTime := 0, lastTime := 0, dispatched := [GoalReached],
             requestedFrames := Suc 0\<rparr>) =
      engine0\<lparr>isRunning := True, deltaTime := 16, lastTime := 16,
        dispatched := [GoalReached, GoalReached], requestedFrames := Suc 0\<rparr>" .
  show ?thesis by (simp add: s f)
qed

end
